theory Spec2Isabelle
  imports Complex_Main
begin

section \<open>Values\<close>

text \<open>
  A JSON request body carries null, booleans, numbers and strings. A field read by
  destructuring (\<^verbatim>\<open>const { comment, rating } = req.body\<close>) is a \<open>json option\<close>:
  \<open>None\<close> is JavaScript's \<^verbatim>\<open>undefined\<close>, the value of an absent field. Numbers are
  the decimal numbers of the JSON text, as rationals. Arrays and nested objects are not
  part of the model.
\<close>

datatype json = JNull | JBool bool | JNum rat | JStr string

type_synonym jsval = "json option"

type_synonym jsobject = "string \<Rightarrow> json option"

text \<open>JavaScript truthiness, as tested by \<^verbatim>\<open>!x\<close>.\<close>

fun truthy :: "jsval \<Rightarrow> bool" where
  "truthy None = False"
| "truthy (Some JNull) = False"
| "truthy (Some (JBool b)) = b"
| "truthy (Some (JNum n)) = (n \<noteq> 0)"
| "truthy (Some (JStr s)) = (s \<noteq> [])"

text \<open>
  A query parameter as the driver binds it: \<^verbatim>\<open>undefined\<close> and \<^verbatim>\<open>null\<close> are both sent
  as SQL NULL, every other value as it is. Column values are \<open>json\<close>, with \<open>JNull\<close> for
  NULL: the table declarations are not part of the source, so a column holds what the
  statement was given.
\<close>

fun prepareValue :: "jsval \<Rightarrow> json" where
  "prepareValue None = JNull"
| "prepareValue (Some v) = v"

text \<open>SQL equality in a WHERE clause: a comparison with NULL is never true.\<close>

definition sql_eq :: "json \<Rightarrow> json \<Rightarrow> bool" where
  "sql_eq a b = (a \<noteq> JNull \<and> b \<noteq> JNull \<and> a = b)"

text \<open>
  Row ids are generated integers. A route parameter (\<^verbatim>\<open>req.params.id\<close>) is a string of
  the URL; it denotes the id whose decimal digits it is.
\<close>

definition is_digit :: "char \<Rightarrow> bool" where
  "is_digit c = (48 \<le> (of_char c :: nat) \<and> (of_char c :: nat) \<le> 57)"

definition parse_id :: "string \<Rightarrow> nat option" where
  "parse_id s =
     (if s = [] \<or> \<not> list_all is_digit s then None
      else Some (foldl (\<lambda>n c. 10 * n + (of_char c - 48)) 0 s))"

definition id_eq :: "nat \<Rightarrow> string \<Rightarrow> bool" where
  "id_eq i s = (parse_id s = Some i)"

section \<open>Password hashing and session tokens\<close>

text \<open>
  bcrypt as an ideal salted hash: the hash of a password under a salt is a term that
  only the same password reproduces. Both library calls reject an argument that is not
  a string.
\<close>

datatype exn = QueryRejected | IllegalArguments

datatype pwhash = BcryptHash string string

fun bcrypt_hash :: "jsval \<Rightarrow> string \<Rightarrow> exn + pwhash" where
  "bcrypt_hash (Some (JStr s)) salt = Inr (BcryptHash salt s)"
| "bcrypt_hash _ salt = Inl IllegalArguments"

fun bcrypt_compare :: "jsval \<Rightarrow> pwhash \<Rightarrow> exn + bool" where
  "bcrypt_compare (Some (JStr s)) (BcryptHash salt p) = Inr (s = p)"
| "bcrypt_compare _ _ = Inl IllegalArguments"

text \<open>
  A signed token: the payload's user id, the issue and expiry times in seconds, and
  the key it was signed with. \<^verbatim>\<open>jwt.sign({ userId }, secret, { expiresIn: '1h' })\<close>
  at time \<open>t\<close> sets the expiry to \<open>t + 3600\<close>.
\<close>

record token =
  tk_userId :: nat
  tk_iat :: nat
  tk_exp :: nat
  tk_key :: string

definition jwt_sign :: "nat \<Rightarrow> string \<Rightarrow> nat \<Rightarrow> token" where
  "jwt_sign uid secret t = \<lparr>tk_userId = uid, tk_iat = t, tk_exp = t + 3600, tk_key = secret\<rparr>"

datatype auth_error = InvalidToken

text \<open>
  Modelled from the spec: the token verification of the Token Service
  (\<^verbatim>\<open>verify(token) -> userId | fails(InvalidToken)\<close>: fails if the signature is invalid,
  the token malformed, or the expiration elapsed), called by \<^verbatim>\<open>authMiddleware.js\<close>,
  which is not among the source files.
\<close>

definition jwt_verify :: "string \<Rightarrow> nat \<Rightarrow> token \<Rightarrow> auth_error + nat" where
  "jwt_verify secret t tok =
     (if tk_key tok \<noteq> secret then Inl InvalidToken
      else if tk_exp tok \<le> t then Inl InvalidToken
      else Inr (tk_userId tok))"

section \<open>The database\<close>

record user_row =
  u_id :: nat
  u_username :: json
  u_email :: json
  u_password :: pwhash

record arcade_row =
  a_id :: nat
  a_name :: json
  a_address :: json
  a_days_open :: json
  a_hours_of_operation :: json
  a_serves_alcohol :: json

record comment_row =
  c_id :: nat
  c_user_id :: nat
  c_arcade_id :: string
  c_comment :: json
  c_rating :: json
  c_created_at :: nat

text \<open>
  The three tables, each with the sequence that generates its ids (the INSERT
  statements give no id, and read it back with RETURNING).
\<close>

record db =
  users :: "user_row list"
  arcades :: "arcade_row list"
  comments :: "comment_row list"
  users_seq :: nat
  arcades_seq :: nat
  comments_seq :: nat

text \<open>The statements of the source, with their bound parameters.\<close>

datatype stmt =
    SelectUserByEmail json
  | InsertUser json json pwhash
  | InsertArcade json json json json json
  | SelectArcadesAvg
  | SelectArcadeById string
  | UpdateArcade json json json json json string
  | DeleteArcade string
  | InsertComment nat string json json
  | SelectProfile nat
  | UpdateComment json json string nat
  | DeleteComment string nat
  | SelectAllArcades

text \<open>
  What the handlers take from their surroundings: the clock (seconds), the signing
  secret, the salt that \<^verbatim>\<open>bcrypt.genSalt\<close> draws, the files of \<^verbatim>\<open>client/build\<close>, and
  the database engine's refusals. The table declarations, their constraints and the
  connection are not part of the source, so whether the engine refuses a statement in a
  state is a parameter; \<^verbatim>\<open>pool.query\<close> then rejects and the handler's \<^verbatim>\<open>catch\<close> runs.
\<close>

record env =
  clock :: nat
  jwt_secret :: string
  gen_salt :: string
  static_file :: "string list \<Rightarrow> bool"
  rejects :: "stmt \<Rightarrow> db \<Rightarrow> bool"

definition pool_query :: "env \<Rightarrow> stmt \<Rightarrow> db \<Rightarrow> 'r \<Rightarrow> exn + 'r" where
  "pool_query e s d r = (if rejects e s d then Inl QueryRejected else Inr r)"

subsection \<open>Users\<close>

text \<open>\<^verbatim>\<open>SELECT * FROM users WHERE email = $1\<close>\<close>

definition select_user_by_email :: "json \<Rightarrow> db \<Rightarrow> user_row list" where
  "select_user_by_email email d = filter (\<lambda>u. sql_eq (u_email u) email) (users d)"

text \<open>\<^verbatim>\<open>INSERT INTO users (username, email, password) VALUES ($1, $2, $3) RETURNING *\<close>\<close>

definition insert_user :: "json \<Rightarrow> json \<Rightarrow> pwhash \<Rightarrow> db \<Rightarrow> user_row list \<times> db" where
  "insert_user username email hashed d =
     (let row = \<lparr>u_id = Suc (users_seq d), u_username = username, u_email = email,
                 u_password = hashed\<rparr>
      in ([row], d\<lparr>users := users d @ [row], users_seq := Suc (users_seq d)\<rparr>))"

subsection \<open>Arcades\<close>






subsection \<open>The arcade list with average ratings\<close>











subsection \<open>Comments\<close>

text \<open>
  \<^verbatim>\<open>INSERT INTO comments (user_id, arcade_id, comment, rating) VALUES ($1, $2, $3, $4)
  RETURNING id, comment, rating, created_at,
  (SELECT username FROM users WHERE id = $1) as username\<close>

  The column \<open>created_at\<close> is not set by the statement: it takes the time of the insert.
\<close>

definition username_of :: "nat \<Rightarrow> db \<Rightarrow> json" where
  "username_of uid d =
     (case filter (\<lambda>u. u_id u = uid) (users d) of [] \<Rightarrow> JNull | u # _ \<Rightarrow> u_username u)"

definition insert_comment ::
  "nat \<Rightarrow> nat \<Rightarrow> string \<Rightarrow> json \<Rightarrow> json \<Rightarrow> db \<Rightarrow> (comment_row \<times> json) list \<times> db" where
  "insert_comment t uid arcade comment rating d =
     (let row = \<lparr>c_id = Suc (comments_seq d), c_user_id = uid, c_arcade_id = arcade,
                 c_comment = comment, c_rating = rating, c_created_at = t\<rparr>
      in ([(row, username_of uid d)],
          d\<lparr>comments := comments d @ [row], comments_seq := Suc (comments_seq d)\<rparr>))"


text \<open>
  \<^verbatim>\<open>UPDATE comments SET comment = $1, rating = $2 WHERE id = $3 AND user_id = $4
  RETURNING *\<close>
\<close>

definition owned :: "string \<Rightarrow> nat \<Rightarrow> comment_row \<Rightarrow> bool" where
  "owned i uid c = (id_eq (c_id c) i \<and> c_user_id c = uid)"

definition update_comment :: "json \<Rightarrow> json \<Rightarrow> string \<Rightarrow> nat \<Rightarrow> db \<Rightarrow> comment_row list \<times> db" where
  "update_comment comment rating i uid d =
     (let upd = (\<lambda>c. c\<lparr>c_comment := comment, c_rating := rating\<rparr>)
      in (map upd (filter (owned i uid) (comments d)),
          d\<lparr>comments := map (\<lambda>c. if owned i uid c then upd c else c) (comments d)\<rparr>))"


section \<open>Responses\<close>

text \<open>
  A response is a status and what is sent: \<open>Text\<close> a plain body (\<^verbatim>\<open>res.send\<close>), \<open>Msg\<close>
  the object \<^verbatim>\<open>{ msg }\<close>, the others the JSON objects of the successful routes.
  \<open>AuthRejected\<close> is the answer of the authentication gate, whose code is not among the
  source files.
\<close>

datatype payload =
    Text string
  | Msg string
  | Auth token user_row
  | Arcade arcade_row
  | ArcadeList "(arcade_row \<times> rat) list"
  | ArcadeDeleted arcade_row
  | CommentCreated nat json json nat json
  | Comment comment_row
  | CommentDeleted comment_row
  | Profile "(comment_row \<times> json) list"
  | ArcadeRows "arcade_row list"
  | File string
  | StaticFile "string list"
  | Empty

datatype response = Reply nat payload | AuthRejected

text \<open>The \<^verbatim>\<open>catch\<close> block shared by the API handlers.\<close>

definition server_error :: "db \<Rightarrow> response \<times> db" where
  "server_error d = (Reply 500 (Text ''Server error''), d)"

section \<open>Route handlers\<close>


text \<open>\<^verbatim>\<open>app.post('/api/auth/register')\<close>\<close>

definition post_auth_register :: "env \<Rightarrow> jsobject \<Rightarrow> db \<Rightarrow> response \<times> db" where
  "post_auth_register e body d =
     (let username = body ''username''; email = body ''email''; password = body ''password''
      in if \<not> truthy username \<or> \<not> truthy email \<or> \<not> truthy password
         then (Reply 400 (Msg ''All fields are required''), d)
         else
           (case pool_query e (SelectUserByEmail (prepareValue email)) d
                   (select_user_by_email (prepareValue email) d) of
              Inl x \<Rightarrow> server_error d
            | Inr userExists \<Rightarrow>
                if length userExists > 0 then (Reply 400 (Msg ''User already exists''), d)
                else
                  (case bcrypt_hash password (gen_salt e) of
                     Inl x \<Rightarrow> server_error d
                   | Inr hashedPassword \<Rightarrow>
                       (case pool_query e
                               (InsertUser (prepareValue username) (prepareValue email)
                                  hashedPassword) d
                               (insert_user (prepareValue username) (prepareValue email)
                                  hashedPassword d) of
                          Inl x \<Rightarrow> server_error d
                        | Inr (newUser, d') \<Rightarrow>
                            (case newUser of
                               [] \<Rightarrow> server_error d'
                             | row # _ \<Rightarrow>
                                 (Reply 201
                                    (Auth (jwt_sign (u_id row) (jwt_secret e) (clock e)) row),
                                  d'))))))"

text \<open>\<^verbatim>\<open>app.post('/api/auth/login')\<close>\<close>

definition post_auth_login :: "env \<Rightarrow> jsobject \<Rightarrow> db \<Rightarrow> response \<times> db" where
  "post_auth_login e body d =
     (let email = body ''email''; password = body ''password''
      in if \<not> truthy email \<or> \<not> truthy password
         then (Reply 400 (Msg ''Both email and password are required''), d)
         else
           (case pool_query e (SelectUserByEmail (prepareValue email)) d
                   (select_user_by_email (prepareValue email) d) of
              Inl x \<Rightarrow> server_error d
            | Inr user \<Rightarrow>
                (case user of
                   [] \<Rightarrow> (Reply 400 (Msg ''Invalid credentials''), d)
                 | row # _ \<Rightarrow>
                     (case bcrypt_compare password (u_password row) of
                        Inl x \<Rightarrow> server_error d
                      | Inr isMatch \<Rightarrow>
                          if \<not> isMatch then (Reply 400 (Msg ''Invalid credentials''), d)
                          else (Reply 200
                                  (Auth (jwt_sign (u_id row) (jwt_secret e) (clock e)) row),
                                d)))))"






text \<open>
  \<^verbatim>\<open>app.post('/api/arcades/:id/comments', authenticateToken, ...)\<close>; \<open>uid\<close> is
  \<^verbatim>\<open>req.user.userId\<close>, set by the gate.
\<close>

definition post_arcades_id_comments ::
  "env \<Rightarrow> nat \<Rightarrow> string \<Rightarrow> jsobject \<Rightarrow> db \<Rightarrow> response \<times> db" where
  "post_arcades_id_comments e uid i body d =
     (let comment = body ''comment''; rating = body ''rating''
      in if \<not> truthy comment \<or> \<not> truthy rating
         then (Reply 400 (Msg ''Both comment and rating are required''), d)
         else
           (case pool_query e
                   (InsertComment uid i (prepareValue comment) (prepareValue rating)) d
                   (insert_comment (clock e) uid i (prepareValue comment)
                      (prepareValue rating) d) of
              Inl x \<Rightarrow> server_error d
            | Inr (newComment, d') \<Rightarrow>
                (case newComment of
                   [] \<Rightarrow> (Reply 200 Empty, d')
                 | (row, username) # _ \<Rightarrow>
                     (Reply 200
                        (CommentCreated (c_id row) (c_comment row) (c_rating row)
                           (c_created_at row) username),
                      d'))))"


text \<open>\<^verbatim>\<open>app.put('/api/comments/:commentId', authenticateToken, ...)\<close>\<close>

definition put_comments_id :: "env \<Rightarrow> nat \<Rightarrow> string \<Rightarrow> jsobject \<Rightarrow> db \<Rightarrow> response \<times> db" where
  "put_comments_id e userId commentId body d =
     (let comment = prepareValue (body ''comment''); rating = prepareValue (body ''rating'')
      in case pool_query e (UpdateComment comment rating commentId userId) d
                (update_comment comment rating commentId userId d) of
           Inl x \<Rightarrow> server_error d
         | Inr (updatedComment, d') \<Rightarrow>
             (case updatedComment of
                [] \<Rightarrow> (Reply 404 (Msg ''Comment not found or not authorized''), d')
              | row # _ \<Rightarrow> (Reply 200 (Comment row), d')))"




section \<open>Routing\<close>


















section \<open>Notions of the specification\<close>






section \<open>Example requests and states\<close>

text \<open>A request body given by the fields of its JSON object.\<close>

definition body_of :: "(string \<times> json) list \<Rightarrow> jsobject" where
  "body_of kvs = map_of kvs"

text \<open>
  A server at second 1000 whose database executes every statement and whose build
  directory holds no file under the requested paths.
\<close>

definition env0 :: env where
  "env0 = \<lparr>clock = 1000, jwt_secret = ''s3cret'', gen_salt = ''salt'',
           static_file = (\<lambda>p. False), rejects = (\<lambda>s d. False)\<rparr>"

text \<open>Two users, two arcades, and two comments on the first arcade, one by each user.\<close>

definition db1 :: db where
  "db1 =
     \<lparr>users =
        [\<lparr>u_id = 1, u_username = JStr ''ann'', u_email = JStr ''ann@nyc.example'',
          u_password = BcryptHash ''s1'' ''pw-ann''\<rparr>,
         \<lparr>u_id = 2, u_username = JStr ''bob'', u_email = JStr ''bob@nyc.example'',
          u_password = BcryptHash ''s2'' ''pw-bob''\<rparr>],
      arcades =
        [\<lparr>a_id = 1, a_name = JStr ''Barcade'', a_address = JStr ''148 W 24th St'',
          a_days_open = JStr ''Mon-Sun'', a_hours_of_operation = JStr ''12-2'',
          a_serves_alcohol = JBool True\<rparr>,
         \<lparr>a_id = 2, a_name = JStr ''Chinatown Fair'', a_address = JStr ''8 Mott St'',
          a_days_open = JStr ''Mon-Sun'', a_hours_of_operation = JStr ''11-20'',
          a_serves_alcohol = JBool False\<rparr>],
      comments =
        [\<lparr>c_id = 1, c_user_id = 1, c_arcade_id = ''1'', c_comment = JStr ''fun'',
          c_rating = JNum 3, c_created_at = 10\<rparr>,
         \<lparr>c_id = 2, c_user_id = 2, c_arcade_id = ''1'', c_comment = JStr ''great'',
          c_rating = JNum 5, c_created_at = 20\<rparr>],
      users_seq = 2, arcades_seq = 2, comments_seq = 2\<rparr>"


definition no_rating :: jsobject where
  "no_rating = body_of [(''comment'', JStr ''meh'')]"


text \<open>Registrations under a new email and under ann's, and ann's login.\<close>

definition signup :: jsobject where
  "signup = body_of [(''username'', JStr ''cat''), (''email'', JStr ''cat@nyc.example''),
                     (''password'', JStr ''pw-cat'')]"



definition ann_login :: jsobject where
  "ann_login = body_of [(''email'', JStr ''ann@nyc.example''), (''password'', JStr ''pw-ann'')]"





section \<open>Basic facts\<close>













lemma parse_id_1: "parse_id ''1'' = Some 1"
  by (simp add: parse_id_def is_digit_def)

lemma id_eq_1: "id_eq n ''1'' = (n = 1)"
  by (auto simp: id_eq_def parse_id_1)

section \<open>Comment ownership\<close>











section \<open>Comment creation\<close>




section \<open>Validation before any query\<close>

text \<open>
  Claim C6. A registration, login or comment-creation request in which a required field
  is missing is answered with 400 and the database is returned as it was, whatever the
  database engine would do: the check comes before every query of the handler.
\<close>

theorem missing_field_400_unchanged:
  "(body ''username'' = None \<or> body ''email'' = None \<or> body ''password'' = None \<longrightarrow>
      post_auth_register e body d = (Reply 400 (Msg ''All fields are required''), d)) \<and>
   (body ''email'' = None \<or> body ''password'' = None \<longrightarrow>
      post_auth_login e body d = (Reply 400 (Msg ''Both email and password are required''), d)) \<and>
   (body ''comment'' = None \<or> body ''rating'' = None \<longrightarrow>
      post_arcades_id_comments e uid i body d =
        (Reply 400 (Msg ''Both comment and rating are required''), d))"
  by (auto simp: post_auth_register_def post_auth_login_def post_arcades_id_comments_def Let_def)

text \<open>A body with only a comment text is refused by all three handlers.\<close>

theorem missing_field_400_unchanged_witness:
  "no_rating ''rating'' = None \<and> no_rating ''email'' = None \<and>
   post_auth_register env0 no_rating db1 = (Reply 400 (Msg ''All fields are required''), db1) \<and>
   post_auth_login env0 no_rating db1 =
     (Reply 400 (Msg ''Both email and password are required''), db1) \<and>
   post_arcades_id_comments env0 2 ''1'' no_rating db1 =
     (Reply 400 (Msg ''Both comment and rating are required''), db1)"
proof -
  have m: "no_rating ''rating'' = None" "no_rating ''email'' = None"
    by (simp_all add: no_rating_def body_of_def)
  from missing_field_400_unchanged [where body = no_rating and e = env0 and d = db1 and uid = 2 and i = "''1''"] m
  show ?thesis by blast
qed

section \<open>Comment update without validation\<close>

lemma update_comment_owner:
  assumes "c \<in> set (comments d)" "owned i uid c"
  shows "\<exists>row rows. fst (update_comment cm rt i uid d) = row # rows \<and> owned i uid row \<and>
           c_comment row = cm \<and> c_rating row = rt"
proof -
  from assms have "filter (owned i uid) (comments d) \<noteq> []"
    by (auto simp: filter_empty_conv)
  then obtain x xs where f: "filter (owned i uid) (comments d) = x # xs"
    by (cases "filter (owned i uid) (comments d)") auto
  then have "x \<in> set (filter (owned i uid) (comments d))" by simp
  then have "owned i uid x" by simp
  with f show ?thesis
    by (simp add: update_comment_def Let_def owned_def)
qed

text \<open>
  Claim C10. The comment update checks no field of its body. When the caller owns a
  comment with the requested id and the database executes the statement, the answer is
  200 with an updated row, never 400, and every row of the caller under that id gets the
  text and rating of the body, NULL for a field that is absent. Comment creation refuses
  the same body with 400.
\<close>

theorem comment_update_unvalidated:
  "((\<exists>c\<in>set (comments d). id_eq (c_id c) i \<and> c_user_id c = uid) \<and>
    \<not> rejects e (UpdateComment (prepareValue (body ''comment''))
                   (prepareValue (body ''rating'')) i uid) d \<longrightarrow>
      (\<exists>row. put_comments_id e uid i body d =
          (Reply 200 (Comment row),
           d\<lparr>comments :=
                map (\<lambda>c. if id_eq (c_id c) i \<and> c_user_id c = uid
                         then c\<lparr>c_comment := prepareValue (body ''comment''),
                                c_rating := prepareValue (body ''rating'')\<rparr>
                         else c) (comments d)\<rparr>) \<and>
          id_eq (c_id row) i \<and> c_user_id row = uid \<and>
          (body ''comment'' = None \<longrightarrow> c_comment row = JNull) \<and>
          (body ''rating'' = None \<longrightarrow> c_rating row = JNull))) \<and>
   (body ''comment'' = None \<or> body ''rating'' = None \<longrightarrow>
      post_arcades_id_comments e uid a body d =
        (Reply 400 (Msg ''Both comment and rating are required''), d))"
proof -
  have 1: "\<exists>row. put_comments_id e uid i body d =
          (Reply 200 (Comment row),
           d\<lparr>comments :=
                map (\<lambda>c. if id_eq (c_id c) i \<and> c_user_id c = uid
                         then c\<lparr>c_comment := prepareValue (body ''comment''),
                                c_rating := prepareValue (body ''rating'')\<rparr>
                         else c) (comments d)\<rparr>) \<and>
          id_eq (c_id row) i \<and> c_user_id row = uid \<and>
          (body ''comment'' = None \<longrightarrow> c_comment row = JNull) \<and>
          (body ''rating'' = None \<longrightarrow> c_rating row = JNull)"
    if c: "c \<in> set (comments d)" "id_eq (c_id c) i \<and> c_user_id c = uid"
      and r: "\<not> rejects e (UpdateComment (prepareValue (body ''comment''))
                   (prepareValue (body ''rating'')) i uid) d" for c
  proof -
    from c have "owned i uid c" by (simp add: owned_def)
    from update_comment_owner [OF c(1) this]
    obtain row rows where u:
      "fst (update_comment (prepareValue (body ''comment'')) (prepareValue (body ''rating'')) i uid d)
         = row # rows"
      "owned i uid row" "c_comment row = prepareValue (body ''comment'')"
      "c_rating row = prepareValue (body ''rating'')"
      by blast
    have s: "snd (update_comment cm rt i uid d) =
           d\<lparr>comments :=
                map (\<lambda>c. if id_eq (c_id c) i \<and> c_user_id c = uid
                         then c\<lparr>c_comment := cm, c_rating := rt\<rparr>
                         else c) (comments d)\<rparr>" for cm rt
      by (simp add: update_comment_def Let_def owned_def)
    have q: "update_comment (prepareValue (body ''comment'')) (prepareValue (body ''rating''))
               i uid d =
          (row # rows,
           d\<lparr>comments :=
                map (\<lambda>c. if id_eq (c_id c) i \<and> c_user_id c = uid
                         then c\<lparr>c_comment := prepareValue (body ''comment''),
                                c_rating := prepareValue (body ''rating'')\<rparr>
                         else c) (comments d)\<rparr>)"
      using u(1) s by (simp add: prod_eq_iff)
    show ?thesis
      using u(2,3,4) r
      by (simp add: put_comments_id_def Let_def pool_query_def q owned_def)
  qed
  have 2: "body ''comment'' = None \<or> body ''rating'' = None \<Longrightarrow>
      post_arcades_id_comments e uid a body d =
        (Reply 400 (Msg ''Both comment and rating are required''), d)"
    by (auto simp: post_arcades_id_comments_def Let_def)
  from 1 2 show ?thesis by blast
qed

text \<open>Ann sends only a text for her comment 1: its rating becomes NULL.\<close>

theorem comment_update_unvalidated_witness:
  "(\<exists>c\<in>set (comments db1). id_eq (c_id c) ''1'' \<and> c_user_id c = 1) \<and>
   no_rating ''rating'' = None \<and>
   put_comments_id env0 1 ''1'' no_rating db1 =
     (Reply 200 (Comment \<lparr>c_id = 1, c_user_id = 1, c_arcade_id = ''1'',
                          c_comment = JStr ''meh'', c_rating = JNull, c_created_at = 10\<rparr>),
      db1\<lparr>comments :=
            [\<lparr>c_id = 1, c_user_id = 1, c_arcade_id = ''1'', c_comment = JStr ''meh'',
              c_rating = JNull, c_created_at = 10\<rparr>,
             \<lparr>c_id = 2, c_user_id = 2, c_arcade_id = ''1'', c_comment = JStr ''great'',
              c_rating = JNum 5, c_created_at = 20\<rparr>]\<rparr>) \<and>
   post_arcades_id_comments env0 1 ''1'' no_rating db1 =
     (Reply 400 (Msg ''Both comment and rating are required''), db1)"
proof -
  have o: "\<exists>c\<in>set (comments db1). id_eq (c_id c) ''1'' \<and> c_user_id c = 1"
    by (simp add: db1_def id_eq_1)
  have m: "no_rating ''rating'' = None" "prepareValue (no_rating ''comment'') = JStr ''meh''"
    by (simp_all add: no_rating_def body_of_def)
  have r: "\<not> rejects env0 s db1" for s
    by (simp add: env0_def)
  from comment_update_unvalidated [where d = db1 and i = "''1''" and uid = 1 and e = env0 and body = no_rating
      and a = "''1''"] o m r
  obtain row where w: "put_comments_id env0 1 ''1'' no_rating db1 =
          (Reply 200 (Comment row),
           db1\<lparr>comments :=
                map (\<lambda>c. if id_eq (c_id c) ''1'' \<and> c_user_id c = 1
                         then c\<lparr>c_comment := prepareValue (no_rating ''comment''),
                                c_rating := prepareValue (no_rating ''rating'')\<rparr>
                         else c) (comments db1)\<rparr>)"
    and p: "post_arcades_id_comments env0 1 ''1'' no_rating db1 =
     (Reply 400 (Msg ''Both comment and rating are required''), db1)"
    by blast
  have v: "put_comments_id env0 1 ''1'' no_rating db1 =
     (Reply 200 (Comment \<lparr>c_id = 1, c_user_id = 1, c_arcade_id = ''1'',
                          c_comment = JStr ''meh'', c_rating = JNull, c_created_at = 10\<rparr>),
      db1\<lparr>comments :=
            [\<lparr>c_id = 1, c_user_id = 1, c_arcade_id = ''1'', c_comment = JStr ''meh'',
              c_rating = JNull, c_created_at = 10\<rparr>,
             \<lparr>c_id = 2, c_user_id = 2, c_arcade_id = ''1'', c_comment = JStr ''great'',
              c_rating = JNum 5, c_created_at = 20\<rparr>]\<rparr>)"
    by (simp add: put_comments_id_def db1_def pool_query_def env0_def update_comment_def
          owned_def id_eq_1 no_rating_def body_of_def Let_def)
  from o m(1) v p w show ?thesis by blast
qed

section \<open>Registration\<close>

























section \<open>Session tokens\<close>

lemma register_token:
  "fst (post_auth_register e body d) = Reply st (Auth tok u) \<Longrightarrow>
   tok = jwt_sign (u_id u) (jwt_secret e) (clock e)"
  by (auto simp: post_auth_register_def Let_def pool_query_def server_error_def
        split: if_splits sum.splits list.splits prod.splits)

lemma login_token:
  "fst (post_auth_login e body d) = Reply st (Auth tok u) \<Longrightarrow>
   tok = jwt_sign (u_id u) (jwt_secret e) (clock e)"
  by (auto simp: post_auth_login_def Let_def pool_query_def server_error_def
        split: if_splits sum.splits list.splits prod.splits)

lemma verify_signed:
  "jwt_verify secret t (jwt_sign uid secret t0) =
     (if t < t0 + 3600 then Inr uid else Inl InvalidToken)"
  by (simp add: jwt_verify_def jwt_sign_def)

text \<open>
  Claim C7. A token returned by registration or login carries the id of the user it is
  returned with. Under the server's secret it verifies to that id at every second before
  the issue time plus 3600, and verification fails with the invalid-token error at every
  second from then on.
\<close>

theorem issued_token_valid_one_hour:
  "(fst (post_auth_register e body d) = Reply st (Auth tok u) \<or>
    fst (post_auth_login e body d) = Reply st (Auth tok u) \<longrightarrow>
      tk_userId tok = u_id u \<and>
      jwt_verify (jwt_secret e) t tok =
        (if t < clock e + 3600 then Inr (u_id u) else Inl InvalidToken))"
  using register_token [of e body d st tok u] login_token [of e body d st tok u]
  by (auto simp: verify_signed) (simp_all add: jwt_sign_def)

text \<open>
  Cat's token from registration and ann's from login, both issued at second 1000, verify
  up to second 4599 and fail from second 4600.
\<close>

theorem issued_token_valid_one_hour_witness:
  "fst (post_auth_register env0 signup db1) =
     Reply 201
        (Auth \<lparr>tk_userId = 3, tk_iat = 1000, tk_exp = 4600, tk_key = ''s3cret''\<rparr>
           \<lparr>u_id = 3, u_username = JStr ''cat'', u_email = JStr ''cat@nyc.example'',
             u_password = BcryptHash ''salt'' ''pw-cat''\<rparr>) \<and>
   jwt_verify ''s3cret'' 4599 \<lparr>tk_userId = 3, tk_iat = 1000, tk_exp = 4600, tk_key = ''s3cret''\<rparr>
     = Inr 3 \<and>
   jwt_verify ''s3cret'' 4600 \<lparr>tk_userId = 3, tk_iat = 1000, tk_exp = 4600, tk_key = ''s3cret''\<rparr>
     = Inl InvalidToken \<and>
   fst (post_auth_login env0 ann_login db1) =
     Reply 200
        (Auth \<lparr>tk_userId = 1, tk_iat = 1000, tk_exp = 4600, tk_key = ''s3cret''\<rparr>
           \<lparr>u_id = 1, u_username = JStr ''ann'', u_email = JStr ''ann@nyc.example'',
             u_password = BcryptHash ''s1'' ''pw-ann''\<rparr>) \<and>
   jwt_verify ''s3cret'' 1000 \<lparr>tk_userId = 1, tk_iat = 1000, tk_exp = 4600, tk_key = ''s3cret''\<rparr>
     = Inr 1 \<and>
   jwt_verify ''s3cret'' 5000 \<lparr>tk_userId = 1, tk_iat = 1000, tk_exp = 4600, tk_key = ''s3cret''\<rparr>
     = Inl InvalidToken"
proof -
  note t = issued_token_valid_one_hour
  have k: "jwt_secret env0 = ''s3cret''" "clock env0 = 1000"
    by (simp_all add: env0_def)
  have a: "fst (post_auth_register env0 signup db1) =
     Reply 201
        (Auth \<lparr>tk_userId = 3, tk_iat = 1000, tk_exp = 4600, tk_key = ''s3cret''\<rparr>
           \<lparr>u_id = 3, u_username = JStr ''cat'', u_email = JStr ''cat@nyc.example'',
             u_password = BcryptHash ''salt'' ''pw-cat''\<rparr>)"
    by (simp add: post_auth_register_def signup_def body_of_def db1_def env0_def
          pool_query_def select_user_by_email_def sql_eq_def insert_user_def jwt_sign_def Let_def)
  have b: "fst (post_auth_login env0 ann_login db1) =
     Reply 200
        (Auth \<lparr>tk_userId = 1, tk_iat = 1000, tk_exp = 4600, tk_key = ''s3cret''\<rparr>
           \<lparr>u_id = 1, u_username = JStr ''ann'', u_email = JStr ''ann@nyc.example'',
             u_password = BcryptHash ''s1'' ''pw-ann''\<rparr>)"
    by (simp add: post_auth_login_def ann_login_def body_of_def db1_def env0_def
          pool_query_def select_user_by_email_def sql_eq_def jwt_sign_def Let_def)
  from t [where e = env0 and body = signup and d = db1 and t = 4599] a
  have 1: "jwt_verify ''s3cret'' 4599
             \<lparr>tk_userId = 3, tk_iat = 1000, tk_exp = 4600, tk_key = ''s3cret''\<rparr> = Inr 3"
    by (simp add: k)
  from t [where e = env0 and body = signup and d = db1 and t = 4600] a
  have 2: "jwt_verify ''s3cret'' 4600
             \<lparr>tk_userId = 3, tk_iat = 1000, tk_exp = 4600, tk_key = ''s3cret''\<rparr> = Inl InvalidToken"
    by (simp add: k)
  from t [where e = env0 and body = ann_login and d = db1 and t = 1000] b
  have 3: "jwt_verify ''s3cret'' 1000
             \<lparr>tk_userId = 1, tk_iat = 1000, tk_exp = 4600, tk_key = ''s3cret''\<rparr> = Inr 1"
    by (simp add: k)
  from t [where e = env0 and body = ann_login and d = db1 and t = 5000] b
  have 4: "jwt_verify ''s3cret'' 5000
             \<lparr>tk_userId = 1, tk_iat = 1000, tk_exp = 4600, tk_key = ''s3cret''\<rparr> = Inl InvalidToken"
    by (simp add: k)
  from a b 1 2 3 4 show ?thesis by blast
qed

section \<open>Routing and the authentication gate\<close>











section \<open>The arcade list\<close>














section \<open>Arcade round trip\<close>











end
